theory Spec2Isabelle
  imports Main "HOL-Library.Word"
begin

section \<open>Operating-system boundary\<close>

text \<open>
  The transports of SIT talk to the kernel (UNIX domain sockets) and to ZeroMQ. Every call
  that crosses this boundary is recorded as an event, in program order; what the call
  returns is supplied by the environment as an argument of the modelled function.
  A \<open>Write\<close> and a \<open>ZmqSend\<close> carry the bytes handed over, a \<open>Read\<close> the
  number of bytes asked for.
\<close>

type_synonym fd = int

datatype event =
    Socket
  | Perror string
  | Bind fd string
  | Listen fd int
  | Accept fd
  | Connect fd string
  | Write fd string
  | Read fd nat
  | ZmqConnect string
  | ZmqBind string
  | ZmqRecv
  | ZmqSend string

text \<open>
  Undefined behaviour (a store outside an array) and C++ exceptions end a call without a
  usable object; they are values of the model. The two numbers of an out-of-bounds store
  are the index written and the length of the array.
\<close>

datatype fault =
    OutOfBounds nat nat
  | BadArrayNewLength
  | ZmqErrorT

definition NUL :: char where
  "NUL = CHR 0x00"

definition newline :: char where
  "newline = CHR 0x0A"

text \<open>
  \<open>c_str\<close> is how C reads a character array as a string: everything before the first
  NUL byte. It is also what \<open>strcpy\<close> and the assignment \<open>m_data = m_buf\<close> read from
  \<open>std::string::c_str()\<close>, whose buffer is the string's bytes followed by one NUL.
\<close>

definition c_str :: "string \<Rightarrow> string" where
  "c_str s = takeWhile (\<lambda>c. c \<noteq> NUL) s"

text \<open>
  \<open>strcpy dst src\<close> stores the bytes of \<open>src.c_str()\<close> and the terminating NUL at the
  start of the array \<open>dst\<close>. Nothing compares the length with the array: the store of
  the last byte, at index \<open>strlen\<close>, is outside the array when the string does not fit.
\<close>

definition strcpy :: "string \<Rightarrow> string \<Rightarrow> fault + string" where
  "strcpy dst src =
     (let n = length (c_str src) in
      if n < length dst then Inr (c_str src @ NUL # drop (Suc n) dst)
      else Inl (OutOfBounds n (length dst)))"

text \<open>\<open>write(fd, buf, count)\<close>: the first \<open>count\<close> bytes at \<open>buf\<close> are handed to the kernel.\<close>

definition sys_write :: "fd \<Rightarrow> string \<Rightarrow> nat \<Rightarrow> event" where
  "sys_write d buf count = Write d (take count buf)"

text \<open>
  What the kernel answers to \<open>read(fd, buf, count)\<close>: a failure (the call returns -1 and
  stores nothing), or the bytes it has for the descriptor, of which it stores at most
  \<open>count\<close> at the start of \<open>buf\<close> and returns their number.
\<close>

datatype rd = RdFail | RdData string

definition read_ret :: "rd \<Rightarrow> nat \<Rightarrow> int" where
  "read_ret r count = (case r of RdFail \<Rightarrow> - 1 | RdData bs \<Rightarrow> int (min (length bs) count))"

definition read_store :: "rd \<Rightarrow> nat \<Rightarrow> string \<Rightarrow> string" where
  "read_store r count buf =
     (case r of RdFail \<Rightarrow> buf
      | RdData bs \<Rightarrow> take count bs @ drop (length (take count bs)) buf)"

section \<open>SocketSignal (ssti/socksigs.hpp)\<close>

text \<open>
  The object's fields. \<open>m_buf\<close> is the array \<open>char m_buf[BUFSIZE]\<close>, so its length is
  \<open>BUFSIZE\<close>; \<open>sun_path\<close> is the array \<open>m_addr.sun_path\<close>, whose length the system
  header fixes; \<open>m_rd_bytes\<close> is a \<open>size_t\<close>, taken as 64 bits wide. Of the base class
  \<open>SignalIO\<close> (sigutils.hpp) the transports use the string \<open>m_data\<close> only.
\<close>

record SignalIO =
  m_data :: string

record SocketSignal = SignalIO +
  m_server_side :: bool
  m_socket :: fd
  m_rd_socket :: fd
  m_rd_bytes :: "64 word"
  m_buf :: string
  sun_path :: string

definition BUFSIZE :: "SocketSignal \<Rightarrow> nat" where
  "BUFSIZE s = length (m_buf s)"

text \<open>
  The constructor, for a buffer size \<open>bufsize\<close> (the macro \<open>BUFSIZE\<close>, 5 unless the
  build defines it), a \<open>sun_path\<close> array of \<open>pathcap\<close> bytes and the initial string
  \<open>data0\<close> of the base class: \<open>m_buf("")\<close> and \<open>m_addr({})\<close> zero both arrays.
\<close>

definition SocketSignal_ctor :: "nat \<Rightarrow> nat \<Rightarrow> string \<Rightarrow> fd \<Rightarrow> bool \<Rightarrow> SocketSignal" where
  "SocketSignal_ctor bufsize pathcap data0 sock server_side =
     \<lparr> m_data = data0, m_server_side = server_side, m_socket = sock, m_rd_socket = 0,
       m_rd_bytes = 0, m_buf = replicate bufsize NUL, sun_path = replicate pathcap NUL \<rparr>"

text \<open>
  What the kernel returns to the calls of \<open>set_addr\<close>. \<open>accept\<close> is given \<open>m_addr\<close>
  to fill in with the peer's address: \<open>accept_path\<close> is the path it stores at the start
  of \<open>sun_path\<close>, if it stores one (it stores none for a peer without a name, or when it
  fails).
\<close>

record setup_env =
  bind_ret :: int
  listen_ret :: int
  accept_ret :: int
  accept_path :: "string option"
  connect_ret :: int

definition accept_store :: "string option \<Rightarrow> string \<Rightarrow> string" where
  "accept_store peer buf =
     (case peer of None \<Rightarrow> buf
      | Some p \<Rightarrow> take (length buf) p @ drop (length (take (length buf) p)) buf)"

definition msg_socket :: string where
  "msg_socket = ''Socket creation'' @ [newline]"

definition msg_bind :: string where
  "msg_bind = ''Bind failed'' @ [newline]"

definition msg_listen :: string where
  "msg_listen = ''Socket listen'' @ [newline]"

definition msg_accept :: string where
  "msg_accept = ''Accept failed'' @ [newline]"

definition msg_connect :: string where
  "msg_connect = ''Connection failed'' @ [newline]"

text \<open>\<open>if (ret < 0) perror(msg);\<close> after a call: the events the call and its check leave.\<close>

definition checked :: "event \<Rightarrow> int \<Rightarrow> string \<Rightarrow> event list" where
  "checked call ret msg = call # (if ret < 0 then [Perror msg] else [])"

definition SocketSignal_set_addr :: "setup_env \<Rightarrow> SocketSignal \<Rightarrow> string \<Rightarrow> event list \<times> (fault + SocketSignal)" where
  "SocketSignal_set_addr env s addr =
     (let e0 = (if m_socket s < 0 then [Perror msg_socket] else []) in
      case strcpy (replicate (length (sun_path s)) NUL) addr of
        Inl f \<Rightarrow> (e0, Inl f)
      | Inr path \<Rightarrow>
          if m_server_side s then
            (e0 @ checked (Bind (m_socket s) (c_str path)) (bind_ret env) msg_bind
                @ checked (Listen (m_socket s) 5) (listen_ret env) msg_listen
                @ checked (Accept (m_socket s)) (accept_ret env) msg_accept,
             Inr (s\<lparr>sun_path := accept_store (accept_path env) path,
                    m_rd_socket := accept_ret env\<rparr>))
          else
            (e0 @ checked (Connect (m_socket s) (c_str path)) (connect_ret env) msg_connect,
             Inr (s\<lparr>sun_path := path\<rparr>)))"

text \<open>
  \<open>send\<close>: one \<open>write\<close> of \<open>m_data.size()\<close> bytes from \<open>m_data.c_str()\<close>, on the
  accepted descriptor for the server side and on the object's own socket otherwise. The
  value \<open>write\<close> returns is not looked at, and the object does not change.
\<close>

definition SocketSignal_send :: "SocketSignal \<Rightarrow> event list" where
  "SocketSignal_send s =
     (if m_server_side s then [sys_write (m_rd_socket s) (m_data s @ [NUL]) (length (m_data s))]
      else [sys_write (m_socket s) (m_data s @ [NUL]) (length (m_data s))])"

text \<open>
  \<open>recv\<close>: one \<open>read\<close> of at most \<open>BUFSIZE\<close> bytes into \<open>m_buf\<close>; the value returned,
  an \<open>ssize_t\<close>, is cast to \<open>size_t\<close> and is the index of the store of the terminator.
  That store is checked against the array here, since C++ does not.
\<close>

definition read_call :: "SocketSignal \<Rightarrow> event" where
  "read_call s =
     (if m_server_side s then Read (m_rd_socket s) (BUFSIZE s) else Read (m_socket s) (BUFSIZE s))"

definition rd_bytes :: "SocketSignal \<Rightarrow> rd \<Rightarrow> 64 word" where
  "rd_bytes s r = of_int (read_ret r (BUFSIZE s))"

definition SocketSignal_recv :: "SocketSignal \<Rightarrow> rd \<Rightarrow> event list \<times> (fault + SocketSignal)" where
  "SocketSignal_recv s r =
     (let n = rd_bytes s r;
          buf = read_store r (BUFSIZE s) (m_buf s)
      in ([read_call s],
          if unat n < length buf
          then Inr (s\<lparr>m_data := c_str (buf[unat n := NUL]), m_rd_bytes := n,
                      m_buf := buf[unat n := NUL]\<rparr>)
          else Inl (OutOfBounds (unat n) (length buf))))"

section \<open>ZMQSignal (ssti/zmqsigs.hpp)\<close>

text \<open>
  \<open>memcpy dst src n\<close> stores the first \<open>n\<close> bytes of \<open>src\<close> at the start of the array
  \<open>dst\<close>; with \<open>n\<close> beyond the array the first store outside it is at index
  \<open>length dst\<close>.
\<close>

definition memcpy :: "string \<Rightarrow> string \<Rightarrow> nat \<Rightarrow> fault + string" where
  "memcpy dst src n =
     (if n \<le> length dst then Inr (take n src @ drop n dst)
      else Inl (OutOfBounds (length dst) (length dst)))"

datatype zmq_type = ZMQ_REP | ZMQ_REQ

text \<open>
  The fields of the class, \<open>z_\<close> for the private \<open>m_\<close> of the source where SocketSignal
  has a field of the same name; \<open>z_buf\<close> is the heap array \<open>_buf\<close> and \<open>z_socket\<close> the
  type the socket was opened with.
\<close>

record ZMQSignal = SignalIO +
  z_server_side :: bool
  z_buf_size :: int
  z_socket :: zmq_type
  z_msg :: string
  z_buf :: string

text \<open>
  The constructor: a reply socket for the server side and a request socket otherwise, and
  \<open>new char[m_buf_size]\<close>, which throws for a negative size and whose bytes are whatever
  the allocation holds (\<open>heap\<close>).
\<close>

definition ZMQSignal_ctor :: "(nat \<Rightarrow> char) \<Rightarrow> string \<Rightarrow> int \<Rightarrow> bool \<Rightarrow> fault + ZMQSignal" where
  "ZMQSignal_ctor heap data0 buf_size server_side =
     (if buf_size < 0 then Inl BadArrayNewLength
      else Inr \<lparr> m_data = data0, z_server_side = server_side, z_buf_size = buf_size,
                 z_socket = (if server_side then ZMQ_REP else ZMQ_REQ), z_msg = [],
                 z_buf = map heap [0 ..< nat buf_size] \<rparr>)"

text \<open>
  \<open>set_addr\<close>: one call of the socket, \<open>connect\<close> for the server side and \<open>bind\<close>
  otherwise, on the address as a C string. \<open>rc\<close> is what libzmq returns; the C++ binding
  throws \<open>zmq::error_t\<close> when it is not 0.
\<close>

definition ZMQSignal_set_addr :: "int \<Rightarrow> ZMQSignal \<Rightarrow> string \<Rightarrow> event list \<times> (fault + ZMQSignal)" where
  "ZMQSignal_set_addr rc s addr =
     ([if z_server_side s then ZmqConnect (c_str addr) else ZmqBind (c_str addr)],
      if rc \<noteq> 0 then Inl ZmqErrorT else Inr s)"

text \<open>
  What the blocking \<open>m_socket.recv(&m_msg)\<close> does: it fills \<open>m_msg\<close> with a message of
  any size, or throws.
\<close>

datatype zrd = ZmqThrow | ZmqMsg string

text \<open>
  \<open>recv\<close>: the whole message is copied into \<open>_buf\<close>, whatever its size, and the
  terminator is stored at index \<open>m_msg.size()\<close>.
\<close>

definition ZMQSignal_recv :: "ZMQSignal \<Rightarrow> zrd \<Rightarrow> event list \<times> (fault + ZMQSignal)" where
  "ZMQSignal_recv s r =
     ([ZmqRecv],
      case r of
        ZmqThrow \<Rightarrow> Inl ZmqErrorT
      | ZmqMsg m \<Rightarrow>
          (case memcpy (z_buf s) m (length m) of
             Inl f \<Rightarrow> Inl f
           | Inr buf \<Rightarrow>
               if length m < length buf
               then Inr (s\<lparr>z_msg := m, z_buf := buf[length m := NUL],
                           m_data := c_str (buf[length m := NUL])\<rparr>)
               else Inl (OutOfBounds (length m) (length buf))))"

text \<open>
  \<open>send\<close>: \<open>m_msg\<close> is rebuilt with \<open>m_data.size()\<close> bytes, filled from
  \<open>m_data.c_str()\<close> and sent; \<open>ok\<close> is whether the library sent it (it throws
  otherwise). What the library leaves in \<open>m_msg\<close> after the call is not modelled: the next
  \<open>recv\<close> replaces it.
\<close>

definition ZMQSignal_send :: "ZMQSignal \<Rightarrow> bool \<Rightarrow> event list \<times> (fault + ZMQSignal)" where
  "ZMQSignal_send s ok =
     (case memcpy (replicate (length (m_data s)) NUL) (m_data s @ [NUL]) (length (m_data s)) of
        Inl f \<Rightarrow> ([], Inl f)
      | Inr msg \<Rightarrow> ([ZmqSend msg], if ok then Inr (s\<lparr>z_msg := msg\<rparr>) else Inl ZmqErrorT))"

section \<open>The logic-simulation process (examples/unit/blackboxes/galois\_sock\_driver.cpp)\<close>

text \<open>
  \<open>sc_main\<close> uses the SystemC kernel, the device under test and the accessors of the base
  class \<open>SignalIO\<close>, none of which is in the sources at hand. They are parameters:
  \<open>'d\<close> is the state of the simulation (the design and its signals), and
  \<^item> \<open>init_data\<close> is \<open>m_data\<close> as the base constructor leaves it;
  \<^item> \<open>alive\<close> is \<open>m_signal_io.alive()\<close>, read off \<open>m_data\<close>;
  \<^item> \<open>set_pid\<close> is \<open>m_signal_io.set(glslfsr_ports.pid, v)\<close>, as a change of \<open>m_data\<close>;
  \<^item> \<open>set_data_out\<close> is \<open>m_signal_io.set(glslfsr_ports.data_out, data_out)\<close>;
  \<^item> \<open>sc_start\<close> is the kernel's \<open>sc_start()\<close>;
  \<^item> \<open>drive\<close> is the two assignments to \<open>clock\<close> and \<open>reset\<close> from
    \<open>get_clock_pulse\<close> and \<open>get<bool>\<close>.
\<close>

record 'd kit =
  init_data :: string
  alive :: "string \<Rightarrow> bool"
  set_pid :: "string \<Rightarrow> int \<Rightarrow> string"
  set_data_out :: "string \<Rightarrow> 'd \<Rightarrow> string"
  sc_start :: "'d \<Rightarrow> 'd"
  drive :: "string \<Rightarrow> 'd \<Rightarrow> 'd"

text \<open>
  How a run of the process ends: \<open>sc_main\<close> returns, or it waits in a \<open>read\<close> that the
  peer never answers, or it has left defined behaviour.
\<close>

datatype outcome = Returned int | Blocked | Faulted fault

text \<open>
  The \<open>while (true)\<close> loop, over the answers the kernel gives to its reads, one for each
  \<open>recv\<close>; when they are used up the next \<open>read\<close> blocks.
\<close>

fun step_loop :: "'d kit \<Rightarrow> rd list \<Rightarrow> SocketSignal \<Rightarrow> 'd \<Rightarrow> event list \<times> outcome" where
  "step_loop k [] s d = ([read_call s], Blocked)"
| "step_loop k (r # rs) s d =
     (let d1 = sc_start k d in
      case SocketSignal_recv s r of
        (e, Inl f) \<Rightarrow> (e, Faulted f)
      | (e, Inr s1) \<Rightarrow>
          if \<not> alive k (m_data s1) then (e, Returned 0)
          else
            let d2 = drive k (m_data s1) d1;
                s2 = s1\<lparr>m_data := set_data_out k (m_data s1) d2\<rparr>;
                rest = step_loop k rs s2 d2
            in (e @ SocketSignal_send s2 @ fst rest, snd rest))"

text \<open>
  What the environment gives one run: the descriptor \<open>socket\<close> returns, the results of
  the setup calls, the process id, and the answers to the reads.
\<close>

record driver_env =
  sock_fd :: fd
  setup_rets :: setup_env
  pid :: int
  reads :: "rd list"

text \<open>
  \<open>sc_main\<close>, for the address \<open>argv[1]\<close>. The object is built for the client side; the
  number of ports the driver also passes is not a parameter of the constructor above.
\<close>

definition sc_main :: "'d kit \<Rightarrow> nat \<Rightarrow> nat \<Rightarrow> driver_env \<Rightarrow> string \<Rightarrow> 'd \<Rightarrow> event list \<times> outcome" where
  "sc_main k bufsize pathcap env argv1 d =
     (let s0 = SocketSignal_ctor bufsize pathcap (init_data k) (sock_fd env) False in
      case SocketSignal_set_addr (setup_rets env) s0 argv1 of
        (e1, Inl f) \<Rightarrow> (Socket # e1, Faulted f)
      | (e1, Inr s1) \<Rightarrow>
          let s2 = s1\<lparr>m_data := set_pid k (m_data s1) (pid env)\<rparr>;
              rest = step_loop k (reads env) s2 d
          in (Socket # e1 @ SocketSignal_send s2 @ fst rest, snd rest))"

section \<open>Vocabulary of the properties\<close>

text \<open>
  The system calls of a trace are its events other than the diagnostics written by
  \<open>perror\<close>.
\<close>

fun is_perror :: "event \<Rightarrow> bool" where
  "is_perror (Perror _) = True"
| "is_perror _ = False"

definition syscalls :: "event list \<Rightarrow> event list" where
  "syscalls evs = filter (\<lambda>e. \<not> is_perror e) evs"

text \<open>The kinds of event the properties count.\<close>

fun is_bind :: "event \<Rightarrow> bool" where
  "is_bind (Bind _ _) = True"
| "is_bind (ZmqBind _) = True"
| "is_bind _ = False"

fun is_connect :: "event \<Rightarrow> bool" where
  "is_connect (Connect _ _) = True"
| "is_connect (ZmqConnect _) = True"
| "is_connect _ = False"

fun is_write :: "event \<Rightarrow> bool" where
  "is_write (Write _ _) = True"
| "is_write _ = False"

fun is_read :: "event \<Rightarrow> bool" where
  "is_read (Read _ _) = True"
| "is_read _ = False"

text \<open>The descriptor a transfer of bytes goes through.\<close>

fun io_fd :: "event \<Rightarrow> fd option" where
  "io_fd (Write d _) = Some d"
| "io_fd (Read d _) = Some d"
| "io_fd _ = None"

text \<open>
  Any use of a SocketSignal after \<open>set_addr\<close>: a sequence of calls of \<open>send\<close> and
  \<open>recv\<close>, with changes of \<open>m_data\<close> by the accessors of the base class in between. It
  ends at the first call that leaves defined behaviour.
\<close>

datatype call = Set string | Send | Recv rd

fun run :: "call list \<Rightarrow> SocketSignal \<Rightarrow> event list \<times> (fault + SocketSignal)" where
  "run [] s = ([], Inr s)"
| "run (Set v # cs) s = run cs (s\<lparr>m_data := v\<rparr>)"
| "run (Send # cs) s = (SocketSignal_send s @ fst (run cs s), snd (run cs s))"
| "run (Recv r # cs) s =
     (case SocketSignal_recv s r of
        (e, Inl f) \<Rightarrow> (e, Inl f)
      | (e, Inr s1) \<Rightarrow> (e @ fst (run cs s1), snd (run cs s1)))"

text \<open>
  An answer to a \<open>read\<close> of \<open>n\<close> bytes that carries a whole record of a session that
  goes on: it leaves room for the terminator, and the record's alive flag is set.
\<close>

definition alive_record :: "'d kit \<Rightarrow> nat \<Rightarrow> rd \<Rightarrow> bool" where
  "alive_record k n r =
     (case r of RdFail \<Rightarrow> False | RdData bs \<Rightarrow> length bs < n \<and> alive k (c_str bs))"

text \<open>
  Objects and environments for the examples: every setup call succeeds; \<open>bind\<close> fails; a
  ZMQSignal of the server side with a buffer of five bytes; a simulation whose records are
  alive when they start with the character 1; a session of three reads, the second of
  which brings the terminal record.
\<close>

definition env_ok :: setup_env where
  "env_ok = \<lparr>bind_ret = 0, listen_ret = 0, accept_ret = 4, accept_path = None, connect_ret = 0\<rparr>"

definition env_bind_fails :: setup_env where
  "env_bind_fails =
     \<lparr>bind_ret = - 1, listen_ret = 0, accept_ret = 7, accept_path = None, connect_ret = 0\<rparr>"

definition demo_zmq :: ZMQSignal where
  "demo_zmq = \<lparr>m_data = ''on'', z_server_side = True, z_buf_size = 5, z_socket = ZMQ_REP,
     z_msg = [], z_buf = ''?????''\<rparr>"

definition demo_zmq_client :: ZMQSignal where
  "demo_zmq_client = \<lparr>m_data = [], z_server_side = False, z_buf_size = 5, z_socket = ZMQ_REQ,
     z_msg = [], z_buf = replicate 5 NUL\<rparr>"

definition demo_kit :: "nat kit" where
  "demo_kit = \<lparr>init_data = [], alive = (\<lambda>m. take 1 m = ''1''), set_pid = (\<lambda>m p. ''p''),
     set_data_out = (\<lambda>m d. ''d''), sc_start = Suc, drive = (\<lambda>m d. d)\<rparr>"

definition demo_env :: driver_env where
  "demo_env = \<lparr>sock_fd = 3, setup_rets = env_ok, pid = 4242,
     reads = [RdData ''1a'', RdData ''0'', RdData ''1b'']\<rparr>"

section \<open>Auxiliary facts\<close>

subsection \<open>C strings and size\_t\<close>

lemma c_str_append_NUL: "c_str (bs @ NUL # rest) = c_str bs"
  by (induction bs) (simp_all add: c_str_def)

lemma c_str_idem: "c_str (c_str a) = c_str a"
  by (simp add: c_str_def)

lemma c_str_id: "NUL \<notin> set a \<Longrightarrow> c_str a = a"
  by (auto simp: c_str_def)

lemma unat_size_t_minus_one: "unat (- 1 :: 64 word) = 2 ^ 64 - 1"
  by (simp add: unsigned_minus_1_eq_mask mask_eq_exp_minus_1)

lemma unat_size_t_nat: "n < 2 ^ 64 \<Longrightarrow> unat (of_nat n :: 64 word) = n"
  by (simp add: unat_of_nat)

subsection \<open>SocketSignal::set\_addr\<close>

lemma length_accept_store: "length (accept_store peer buf) = length buf"
  by (cases peer) (simp_all add: accept_store_def)

lemma set_addr_server:
  assumes "length (c_str addr) < length (sun_path s)" and "m_server_side s"
  shows "SocketSignal_set_addr env s addr =
    ((if m_socket s < 0 then [Perror msg_socket] else [])
       @ checked (Bind (m_socket s) (c_str addr)) (bind_ret env) msg_bind
       @ checked (Listen (m_socket s) 5) (listen_ret env) msg_listen
       @ checked (Accept (m_socket s)) (accept_ret env) msg_accept,
     Inr (s\<lparr>sun_path := accept_store (accept_path env)
              (c_str addr @ NUL # replicate (length (sun_path s) - Suc (length (c_str addr))) NUL),
            m_rd_socket := accept_ret env\<rparr>))"
  using assms by (simp add: SocketSignal_set_addr_def strcpy_def c_str_append_NUL c_str_idem)

lemma set_addr_client:
  assumes "length (c_str addr) < length (sun_path s)" and "\<not> m_server_side s"
  shows "SocketSignal_set_addr env s addr =
    ((if m_socket s < 0 then [Perror msg_socket] else [])
       @ checked (Connect (m_socket s) (c_str addr)) (connect_ret env) msg_connect,
     Inr (s\<lparr>sun_path := c_str addr @ NUL #
            replicate (length (sun_path s) - Suc (length (c_str addr))) NUL\<rparr>))"
  using assms by (simp add: SocketSignal_set_addr_def strcpy_def c_str_append_NUL c_str_idem)

lemma set_addr_overflow:
  assumes "length (sun_path s) \<le> length (c_str addr)"
  shows "SocketSignal_set_addr env s addr =
    ((if m_socket s < 0 then [Perror msg_socket] else []),
     Inl (OutOfBounds (length (c_str addr)) (length (sun_path s))))"
  using assms by (simp add: SocketSignal_set_addr_def strcpy_def)

lemma syscalls_checked: "\<not> is_perror c \<Longrightarrow> syscalls (checked c ret msg @ evs) = c # syscalls evs"
  by (simp add: syscalls_def checked_def)

lemma syscalls_checked_last: "\<not> is_perror c \<Longrightarrow> syscalls (checked c ret msg) = [c]"
  by (simp add: syscalls_def checked_def)

lemma syscalls_pre: "syscalls ((if b then [Perror m] else []) @ evs) = syscalls evs"
  by (simp add: syscalls_def)

lemma perror_in_checked:
  "\<not> is_perror c \<Longrightarrow> (Perror m \<in> set (checked c ret msg)) = (ret < 0 \<and> m = msg)"
  by (cases c) (auto simp: checked_def)

lemma msgs_distinct:
  "msg_bind \<noteq> msg_listen" "msg_bind \<noteq> msg_accept" "msg_bind \<noteq> msg_socket"
  "msg_listen \<noteq> msg_accept" "msg_listen \<noteq> msg_socket" "msg_accept \<noteq> msg_socket"
  "msg_connect \<noteq> msg_socket"
  by (simp_all add: msg_bind_def msg_listen_def msg_accept_def msg_socket_def msg_connect_def)

subsection \<open>SocketSignal::recv and SocketSignal::send\<close>

lemma length_read_store: "length (read_store r (length buf) buf) = length buf"
  by (cases r) (simp_all add: read_store_def)

lemma read_ret_range: "- 1 \<le> read_ret r n \<and> read_ret r n \<le> int n"
  by (cases r) (simp_all add: read_ret_def)

lemma rd_bytes_fail:
  "read_ret r (BUFSIZE s) = - 1 \<Longrightarrow> unat (rd_bytes s r) = 2 ^ 64 - 1"
  by (simp add: rd_bytes_def unat_size_t_minus_one)

lemma rd_bytes_data:
  assumes "BUFSIZE s < 2 ^ 64" and "0 \<le> read_ret r (BUFSIZE s)"
  shows "unat (rd_bytes s r) = nat (read_ret r (BUFSIZE s))"
proof -
  from assms(2) obtain bs where r: "r = RdData bs"
    by (cases r) (simp_all add: read_ret_def)
  have "min (length bs) (BUFSIZE s) < 2 ^ 64" using assms(1) by simp
  then show ?thesis
    unfolding r rd_bytes_def read_ret_def by (simp add: unat_size_t_nat)
qed

lemma recv_events: "fst (SocketSignal_recv s r) = [read_call s]"
  by (simp add: SocketSignal_recv_def Let_def)

lemma recv_result:
  "snd (SocketSignal_recv s r) =
     (if unat (rd_bytes s r) < BUFSIZE s
      then Inr (s\<lparr>m_data := c_str ((read_store r (BUFSIZE s) (m_buf s))[unat (rd_bytes s r) := NUL]),
                  m_rd_bytes := rd_bytes s r,
                  m_buf := (read_store r (BUFSIZE s) (m_buf s))[unat (rd_bytes s r) := NUL]\<rparr>)
      else Inl (OutOfBounds (unat (rd_bytes s r)) (BUFSIZE s)))"
  by (simp add: SocketSignal_recv_def Let_def BUFSIZE_def length_read_store)

lemma recv_fields:
  assumes "SocketSignal_recv s r = (e, Inr s1)"
  shows "m_server_side s1 = m_server_side s \<and> m_socket s1 = m_socket s
    \<and> m_rd_socket s1 = m_rd_socket s \<and> BUFSIZE s1 = BUFSIZE s"
  using assms
  by (cases r)
    (auto simp: SocketSignal_recv_def Let_def BUFSIZE_def read_store_def split: if_splits)

text \<open>
  A receive of fewer bytes than the buffer holds: the buffer then starts with the bytes
  received and one NUL after them, and \<open>m_data\<close> is these bytes as a C string.
\<close>

lemma recv_in_range:
  assumes "BUFSIZE s < 2 ^ 64" and "length bs < BUFSIZE s"
  shows "SocketSignal_recv s (RdData bs) =
    ([read_call s],
     Inr (s\<lparr>m_data := c_str bs, m_rd_bytes := of_nat (length bs),
            m_buf := bs @ NUL # drop (Suc (length bs)) (m_buf s)\<rparr>))"
proof -
  have n: "unat (of_nat (length bs) :: 64 word) = length bs"
    using assms by (simp add: unat_size_t_nat)
  have st: "read_store (RdData bs) (BUFSIZE s) (m_buf s) = bs @ drop (length bs) (m_buf s)"
    using assms by (simp add: read_store_def)
  have up: "(bs @ drop (length bs) (m_buf s))[length bs := NUL]
      = bs @ NUL # drop (Suc (length bs)) (m_buf s)"
    using assms(2) by (simp add: BUFSIZE_def list_update_append upd_conv_take_nth_drop)
  have rb: "rd_bytes s (RdData bs) = of_nat (length bs)"
    using assms by (simp add: rd_bytes_def read_ret_def)
  show ?thesis
    using assms(2) unfolding SocketSignal_recv_def Let_def st rb n up
    by (simp add: BUFSIZE_def c_str_append_NUL)
qed

lemma read_call_update: "read_call (s\<lparr>m_data := v\<rparr>) = read_call s"
  by (simp add: read_call_def BUFSIZE_def)

lemma io_fd_read_call:
  "io_fd (read_call s) = Some (if m_server_side s then m_rd_socket s else m_socket s)"
  by (simp add: read_call_def)

lemma io_fd_send:
  "e \<in> set (SocketSignal_send s) \<Longrightarrow>
     io_fd e = Some (if m_server_side s then m_rd_socket s else m_socket s)"
  by (auto simp: SocketSignal_send_def sys_write_def split: if_splits)

lemma filter_write_send: "filter is_write (SocketSignal_send s) = SocketSignal_send s"
  by (simp add: SocketSignal_send_def sys_write_def)

lemma filter_read_send: "filter is_read (SocketSignal_send s) = []"
  by (simp add: SocketSignal_send_def sys_write_def)

lemma length_send: "length (SocketSignal_send s) = 1"
  by (simp add: SocketSignal_send_def)

lemma is_read_read_call: "is_read (read_call s)" "\<not> is_write (read_call s)"
  by (simp_all add: read_call_def)

text \<open>Every transfer of a run goes through the descriptor the role of the object selects.\<close>

lemma run_io_fd:
  "e \<in> set (fst (run cs s)) \<Longrightarrow>
     io_fd e = Some (if m_server_side s then m_rd_socket s else m_socket s)"
proof (induction cs s arbitrary: e rule: run.induct)
  case (1 s)
  then show ?case by simp
next
  case (2 v cs s)
  then show ?case by simp
next
  case (3 cs s)
  then show ?case using io_fd_send by auto
next
  case (4 r cs s)
  obtain ev res where sr: "SocketSignal_recv s r = (ev, res)"
    by (cases "SocketSignal_recv s r")
  have ev: "ev = [read_call s]" using recv_events [of s r] sr by simp
  show ?case
  proof (cases res)
    case (Inl f)
    with "4.prems" sr ev show ?thesis by (simp add: io_fd_read_call)
  next
    case (Inr s1)
    with sr have f: "m_server_side s1 = m_server_side s \<and> m_socket s1 = m_socket s
      \<and> m_rd_socket s1 = m_rd_socket s \<and> BUFSIZE s1 = BUFSIZE s"
      using recv_fields by blast
    from "4.prems" sr Inr ev have "e = read_call s \<or> e \<in> set (fst (run cs s1))" by auto
    then show ?thesis
    proof
      assume "e = read_call s"
      then show ?thesis by (simp add: io_fd_read_call)
    next
      assume "e \<in> set (fst (run cs s1))"
      then have "io_fd e = Some (if m_server_side s1 then m_rd_socket s1 else m_socket s1)"
        using "4.IH" [OF sr [symmetric] Inr] by simp
      with f show ?thesis by simp
    qed
  qed
qed

subsection \<open>ZMQSignal\<close>

lemma zmq_ctor_fields:
  assumes "ZMQSignal_ctor heap d0 n flag = Inr z"
  shows "z_server_side z = flag" and "length (z_buf z) = nat n" and "m_data z = d0"
    and "z_socket z = (if flag then ZMQ_REP else ZMQ_REQ)"
  using assms by (auto simp: ZMQSignal_ctor_def split: if_splits)

lemma zmq_recv_result:
  "snd (ZMQSignal_recv z (ZmqMsg m)) =
     (if length m < length (z_buf z)
      then Inr (z\<lparr>m_data := c_str ((m @ drop (length m) (z_buf z))[length m := NUL]),
                  z_msg := m, z_buf := (m @ drop (length m) (z_buf z))[length m := NUL]\<rparr>)
      else Inl (OutOfBounds (length (z_buf z)) (length (z_buf z))))"
  by (simp add: ZMQSignal_recv_def memcpy_def)

subsection \<open>The step loop\<close>

lemma step_loop_starts_with_read: "\<exists>tl. fst (step_loop k rs s d) = read_call s # tl"
proof (cases rs)
  case Nil
  then show ?thesis by simp
next
  case (Cons r rs')
  have "\<exists>res. SocketSignal_recv s r = ([read_call s], res)"
    by (simp add: SocketSignal_recv_def Let_def)
  then obtain res where "SocketSignal_recv s r = ([read_call s], res)" by blast
  then show ?thesis using Cons by (cases res) (simp_all add: Let_def)
qed

lemma step_loop_terminal:
  assumes "BUFSIZE s < 2 ^ 64" and "length bs < BUFSIZE s" and "\<not> alive k (c_str bs)"
  shows "step_loop k (RdData bs # rs) s d = ([read_call s], Returned 0)"
  using assms(3) by (simp add: recv_in_range [OF assms(1,2)])

text \<open>
  A loop that is given \<open>pre\<close>, records that are alive, and then a record that is not:
  it ends with the read of that record, after one read and one write for each record of
  \<open>pre\<close>.
\<close>

lemma step_loop_session:
  assumes "BUFSIZE s < 2 ^ 64" and "list_all (alive_record k (BUFSIZE s)) pre"
    and "length bs < BUFSIZE s" and "\<not> alive k (c_str bs)"
  shows "\<exists>evs. step_loop k (pre @ RdData bs # rs) s d = (evs @ [read_call s], Returned 0)
    \<and> length (filter is_read evs) = length pre \<and> length (filter is_write evs) = length pre"
  using assms
proof (induction pre arbitrary: s d)
  case Nil
  then show ?case using step_loop_terminal [of s bs k rs d] by simp
next
  case (Cons r pre)
  from Cons.prems(2) obtain cs where r: "r = RdData cs" and cs: "length cs < BUFSIZE s"
    and al: "alive k (c_str cs)"
    by (cases r) (simp_all add: alive_record_def)
  define s1 where "s1 = s\<lparr>m_data := c_str cs, m_rd_bytes := of_nat (length cs),
            m_buf := cs @ NUL # drop (Suc (length cs)) (m_buf s)\<rparr>"
  define d2 where "d2 = drive k (c_str cs) (sc_start k d)"
  define s2 where "s2 = s1\<lparr>m_data := set_data_out k (c_str cs) d2\<rparr>"
  have B: "BUFSIZE s2 = BUFSIZE s"
    using cs by (simp add: s2_def s1_def BUFSIZE_def)
  have rc: "read_call s2 = read_call s"
    using B by (simp add: s2_def s1_def read_call_def BUFSIZE_def)
  have step: "step_loop k ((r # pre) @ RdData bs # rs) s d
      = (read_call s # SocketSignal_send s2 @ fst (step_loop k (pre @ RdData bs # rs) s2 d2),
         snd (step_loop k (pre @ RdData bs # rs) s2 d2))"
    using al by (simp add: r recv_in_range [OF Cons.prems(1) cs] Let_def s1_def s2_def d2_def)
  have "\<exists>evs. step_loop k (pre @ RdData bs # rs) s2 d2 = (evs @ [read_call s2], Returned 0)
    \<and> length (filter is_read evs) = length pre \<and> length (filter is_write evs) = length pre"
    using Cons.IH [of s2 d2] Cons.prems B by simp
  then obtain evs
    where ih: "step_loop k (pre @ RdData bs # rs) s2 d2 = (evs @ [read_call s], Returned 0)"
      and nr: "length (filter is_read evs) = length pre"
      and nw: "length (filter is_write evs) = length pre"
    using rc by auto
  have "step_loop k ((r # pre) @ RdData bs # rs) s d
      = ((read_call s # SocketSignal_send s2 @ evs) @ [read_call s], Returned 0)"
    using step ih by simp
  moreover have "length (filter is_read (read_call s # SocketSignal_send s2 @ evs))
      = length (r # pre)"
    using nr by (simp add: is_read_read_call filter_read_send)
  moreover have "length (filter is_write (read_call s # SocketSignal_send s2 @ evs))
      = length (r # pre)"
    using nw by (simp add: is_read_read_call filter_write_send length_send)
  ultimately show ?case by blast
qed

subsection \<open>sc\_main\<close>

text \<open>
  With an address that fits \<open>sun_path\<close>, \<open>sc_main\<close> is: the call of \<open>socket\<close>, the
  events \<open>es\<close> of \<open>set_addr\<close> (no transfer among them), the \<open>send\<close> of an object
  \<open>s2\<close> whose \<open>m_data\<close> is the initial string with the process id set, and the loop
  from \<open>s2\<close>.
\<close>

lemma sc_main_client:
  assumes "length (c_str arg) < pathcap"
  shows "\<exists>s2 es. sc_main k bufsize pathcap env arg d
        = (Socket # es @ SocketSignal_send s2 @ fst (step_loop k (reads env) s2 d),
           snd (step_loop k (reads env) s2 d))
      \<and> filter is_write es = [] \<and> filter is_read es = []
      \<and> m_data s2 = set_pid k (init_data k) (pid env)
      \<and> BUFSIZE s2 = bufsize \<and> \<not> m_server_side s2 \<and> m_socket s2 = sock_fd env"
proof -
  let ?s0 = "SocketSignal_ctor bufsize pathcap (init_data k) (sock_fd env) False"
  have len: "length (c_str arg) < length (sun_path ?s0)"
    using assms by (simp add: SocketSignal_ctor_def)
  have cl: "\<not> m_server_side ?s0" by (simp add: SocketSignal_ctor_def)
  let ?es = "(if m_socket ?s0 < 0 then [Perror msg_socket] else [])
       @ checked (Connect (m_socket ?s0) (c_str arg)) (connect_ret (setup_rets env)) msg_connect"
  let ?s1 = "?s0\<lparr>sun_path := c_str arg @ NUL #
            replicate (length (sun_path ?s0) - Suc (length (c_str arg))) NUL\<rparr>"
  let ?s2 = "?s1\<lparr>m_data := set_pid k (m_data ?s1) (pid env)\<rparr>"
  have "sc_main k bufsize pathcap env arg d
        = (Socket # ?es @ SocketSignal_send ?s2 @ fst (step_loop k (reads env) ?s2 d),
           snd (step_loop k (reads env) ?s2 d))"
    unfolding sc_main_def Let_def set_addr_client [OF len cl] by simp
  moreover have "filter is_write ?es = []" "filter is_read ?es = []"
    by (simp_all add: checked_def)
  moreover have "m_data ?s2 = set_pid k (init_data k) (pid env)"
    "BUFSIZE ?s2 = bufsize" "\<not> m_server_side ?s2" "m_socket ?s2 = sock_fd env"
    by (simp_all add: SocketSignal_ctor_def BUFSIZE_def)
  ultimately show ?thesis by blast
qed

section \<open>Transport setup\<close>

text \<open>
  C1, as the code has it. Every failure of a setup call of \<open>set_addr\<close> is reported: the
  diagnostic of \<open>bind\<close>, \<open>listen\<close>, \<open>accept\<close> or \<open>connect\<close> (and of an invalid socket)
  is written exactly when that call returned a negative value. But no failure is fatal:
  for an address that fits \<open>sun_path\<close> the call always returns with an object, and whatever
  failed, the server side still goes through \<open>bind\<close>, \<open>listen\<close> and \<open>accept\<close> and
  the client side through \<open>connect\<close>.
\<close>

theorem set_addr_failures_reported_not_fatal:
  assumes "length (c_str addr) < length (sun_path s)"
  shows "(\<exists>s'. snd (SocketSignal_set_addr env s addr) = Inr s')
    \<and> (Perror msg_socket \<in> set (fst (SocketSignal_set_addr env s addr))) = (m_socket s < 0)
    \<and> (m_server_side s \<longrightarrow>
          syscalls (fst (SocketSignal_set_addr env s addr))
            = [Bind (m_socket s) (c_str addr), Listen (m_socket s) 5, Accept (m_socket s)]
        \<and> (Perror msg_bind \<in> set (fst (SocketSignal_set_addr env s addr))) = (bind_ret env < 0)
        \<and> (Perror msg_listen \<in> set (fst (SocketSignal_set_addr env s addr)))
            = (listen_ret env < 0)
        \<and> (Perror msg_accept \<in> set (fst (SocketSignal_set_addr env s addr)))
            = (accept_ret env < 0))
    \<and> (\<not> m_server_side s \<longrightarrow>
          syscalls (fst (SocketSignal_set_addr env s addr)) = [Connect (m_socket s) (c_str addr)]
        \<and> (Perror msg_connect \<in> set (fst (SocketSignal_set_addr env s addr)))
            = (connect_ret env < 0))"
proof (cases "m_server_side s")
  case True
  show ?thesis
    unfolding set_addr_server [OF assms True]
    using True
    by (simp add: syscalls_pre syscalls_checked syscalls_checked_last perror_in_checked
        msgs_distinct msgs_distinct [symmetric])
next
  case False
  show ?thesis
    unfolding set_addr_client [OF assms False]
    using False
    by (simp add: syscalls_pre syscalls_checked syscalls_checked_last perror_in_checked
        msgs_distinct msgs_distinct [symmetric])
qed

text \<open>
  An instance: \<open>bind\<close> fails on the server side; the diagnostic of \<open>bind\<close> and no other
  is written, and the three calls are made all the same.
\<close>

theorem set_addr_failures_reported_not_fatal_witness:
  "syscalls (fst (SocketSignal_set_addr env_bind_fails (SocketSignal_ctor 5 108 [] 3 True)
       ''/tmp/galois'')) = [Bind 3 ''/tmp/galois'', Listen 3 5, Accept 3]
   \<and> Perror msg_bind \<in> set (fst (SocketSignal_set_addr env_bind_fails
         (SocketSignal_ctor 5 108 [] 3 True) ''/tmp/galois''))
   \<and> Perror msg_listen \<notin> set (fst (SocketSignal_set_addr env_bind_fails
         (SocketSignal_ctor 5 108 [] 3 True) ''/tmp/galois''))
   \<and> syscalls (fst (SocketSignal_set_addr env_bind_fails (SocketSignal_ctor 5 108 [] 3 False)
         ''/tmp/galois'')) = [Connect 3 ''/tmp/galois'']"
  using set_addr_failures_reported_not_fatal [where addr = "''/tmp/galois''"
      and env = env_bind_fails and s = "SocketSignal_ctor 5 108 [] 3 True"]
    set_addr_failures_reported_not_fatal [where addr = "''/tmp/galois''"
      and env = env_bind_fails and s = "SocketSignal_ctor 5 108 [] 3 False"]
  by (simp add: SocketSignal_ctor_def c_str_def NUL_def env_bind_fails_def)

text \<open>
  Against C1 as the specification states it (a setup failure is fatal): \<open>bind\<close> returns
  -1, and \<open>set_addr\<close> writes the diagnostic, goes on to \<open>listen\<close> and \<open>accept\<close> and
  returns an object; a \<open>send\<close> on that object then writes to the accepted descriptor as
  after a setup without failure.
\<close>

theorem set_addr_bind_failure_goes_on:
  "bind_ret env_bind_fails < 0
   \<and> fst (SocketSignal_set_addr env_bind_fails (SocketSignal_ctor 5 108 ''x'' 3 True)
        ''/tmp/galois'')
      = [Bind 3 ''/tmp/galois'', Perror msg_bind, Listen 3 5, Accept 3]
   \<and> (\<exists>s'. snd (SocketSignal_set_addr env_bind_fails (SocketSignal_ctor 5 108 ''x'' 3 True)
          ''/tmp/galois'') = Inr s'
        \<and> SocketSignal_send s' = [Write 7 ''x''])"
  by (simp add: env_bind_fails_def SocketSignal_set_addr_def SocketSignal_ctor_def strcpy_def
      c_str_def NUL_def checked_def SocketSignal_send_def sys_write_def)

section \<open>Roles of the two sides\<close>

text \<open>
  C2, as the code has it. Of two sides built with the server-side flag true and false and
  given addresses that the constructors and \<open>strcpy\<close> accept, the stream-socket transport
  has the side with the flag bind (and not connect) and the other side connect (and not
  bind); the ZeroMQ transport has it the other way round: the side with the flag connects
  and the other side binds. In each backend one side binds and the other connects, but
  which of the two does is not the same in both.
\<close>

theorem role_pairing_per_backend:
  assumes "length (c_str addr) < pathcap" and "ZMQSignal_ctor heap z0 n flag = Inr z"
  shows "list_ex is_bind (fst (SocketSignal_set_addr env
            (SocketSignal_ctor bufsize pathcap d0 sock flag) addr)) = flag
    \<and> list_ex is_connect (fst (SocketSignal_set_addr env
            (SocketSignal_ctor bufsize pathcap d0 sock flag) addr)) = (\<not> flag)
    \<and> list_ex is_bind (fst (ZMQSignal_set_addr rc z zaddr)) = (\<not> flag)
    \<and> list_ex is_connect (fst (ZMQSignal_set_addr rc z zaddr)) = flag"
proof -
  let ?s = "SocketSignal_ctor bufsize pathcap d0 sock flag"
  have len: "length (c_str addr) < length (sun_path ?s)"
    using assms(1) by (simp add: SocketSignal_ctor_def)
  have fl: "m_server_side ?s = flag" by (simp add: SocketSignal_ctor_def)
  have zf: "z_server_side z = flag" using assms(2) by (rule zmq_ctor_fields(1))
  have zmq: "list_ex is_bind (fst (ZMQSignal_set_addr rc z zaddr)) = (\<not> flag)
    \<and> list_ex is_connect (fst (ZMQSignal_set_addr rc z zaddr)) = flag"
    using zf by (simp add: ZMQSignal_set_addr_def)
  show ?thesis
  proof (cases flag)
    case True
    then have srv: "m_server_side ?s" using fl by simp
    show ?thesis
      unfolding set_addr_server [OF len srv] using zmq True by (simp add: checked_def)
  next
    case False
    then have cl: "\<not> m_server_side ?s" using fl by simp
    show ?thesis
      unfolding set_addr_client [OF len cl] using zmq False by (simp add: checked_def)
  qed
qed

text \<open>An instance, for the sides built with the flag false.\<close>

theorem role_pairing_per_backend_witness:
  "list_ex is_bind (fst (SocketSignal_set_addr env_ok (SocketSignal_ctor 5 108 [] 3 False)
       ''/tmp/galois'')) = False
   \<and> list_ex is_connect (fst (SocketSignal_set_addr env_ok (SocketSignal_ctor 5 108 [] 3 False)
       ''/tmp/galois'')) = True
   \<and> list_ex is_bind (fst (ZMQSignal_set_addr 0 demo_zmq_client ''ipc:///tmp/galois'')) = True"
  using role_pairing_per_backend [where addr = "''/tmp/galois''" and pathcap = 108
      and heap = "\<lambda>i. NUL" and ?z0.0 = "[]" and n = 5 and flag = False
      and z = demo_zmq_client and env = env_ok and bufsize = 5 and ?d0.0 = "[]" and sock = 3
      and rc = 0 and zaddr = "''ipc:///tmp/galois''"]
  by (simp add: ZMQSignal_ctor_def demo_zmq_client_def c_str_def NUL_def map_replicate_const)

text \<open>
  Against C2 as the specification states it (the side with the flag binds in both
  backends): a ZMQSignal built with the flag true connects and does not bind, where a
  SocketSignal built with the flag true binds.
\<close>

theorem zmq_server_side_connects:
  "\<exists>z. ZMQSignal_ctor (\<lambda>i. NUL) [] 16 True = Inr z
     \<and> fst (ZMQSignal_set_addr 0 z ''ipc:///tmp/galois'') = [ZmqConnect ''ipc:///tmp/galois'']
     \<and> \<not> list_ex is_bind (fst (ZMQSignal_set_addr 0 z ''ipc:///tmp/galois''))
     \<and> list_ex is_bind (fst (SocketSignal_set_addr env_ok (SocketSignal_ctor 5 108 [] 3 True)
           ''/tmp/galois''))"
  by (simp add: ZMQSignal_ctor_def ZMQSignal_set_addr_def c_str_def NUL_def
      SocketSignal_set_addr_def SocketSignal_ctor_def strcpy_def checked_def env_ok_def)

text \<open>
  C3. \<open>ZMQSignal::set_addr\<close> makes one call on the socket, with the address it is given
  (as a C string): \<open>connect\<close> when the server-side flag of the object is set and
  \<open>bind\<close> when it is not, whatever the library returns; and the flag of an object is the
  one its constructor was given.
\<close>

theorem zmq_set_addr_roles:
  "fst (ZMQSignal_set_addr rc z addr)
     = [if z_server_side z then ZmqConnect (c_str addr) else ZmqBind (c_str addr)]
   \<and> (\<forall>z'. ZMQSignal_ctor heap d0 n flag = Inr z' \<longrightarrow>
         fst (ZMQSignal_set_addr rc z' addr)
           = [if flag then ZmqConnect (c_str addr) else ZmqBind (c_str addr)])"
  by (auto simp: ZMQSignal_set_addr_def dest: zmq_ctor_fields(1))

text \<open>An instance: the server side connects, a client side bound to the same address binds.\<close>

theorem zmq_set_addr_roles_witness:
  "fst (ZMQSignal_set_addr 0 demo_zmq ''ipc:///tmp/galois'') = [ZmqConnect ''ipc:///tmp/galois'']
   \<and> (\<exists>z'. ZMQSignal_ctor (\<lambda>i. NUL) [] 16 False = Inr z'
          \<and> fst (ZMQSignal_set_addr 0 z' ''ipc:///tmp/galois'') = [ZmqBind ''ipc:///tmp/galois''])"
  using zmq_set_addr_roles [where rc = 0 and z = demo_zmq and addr = "''ipc:///tmp/galois''"
      and heap = "\<lambda>i. NUL" and ?d0.0 = "[]" and n = 16 and flag = False]
  by (simp add: demo_zmq_def c_str_def NUL_def ZMQSignal_ctor_def)

section \<open>The receive buffer\<close>

text \<open>
  C4, where the code leaves it. The buffer cannot hold the bytes of a receive and the
  terminator when the receive fills it: with five bytes read into \<open>char m_buf[5]\<close> the
  terminator is stored at index 5, outside the array, and after a failed \<open>read\<close> at index
  \<open>2^64 - 1\<close>. ZMQSignal has the same store for a message of the size of \<open>_buf\<close>, and its
  \<open>memcpy\<close> copies a longer message past the end of \<open>_buf\<close>: its receive is not limited
  to the capacity.
\<close>

theorem recv_full_buffer_overruns:
  "snd (SocketSignal_recv (SocketSignal_ctor 5 108 [] 3 False) (RdData ''12345''))
     = Inl (OutOfBounds 5 5)
   \<and> snd (SocketSignal_recv (SocketSignal_ctor 5 108 [] 3 False) RdFail)
     = Inl (OutOfBounds 18446744073709551615 5)
   \<and> snd (ZMQSignal_recv demo_zmq (ZmqMsg ''12345'')) = Inl (OutOfBounds 5 5)
   \<and> snd (ZMQSignal_recv demo_zmq (ZmqMsg ''1234567'')) = Inl (OutOfBounds 5 5)"
  by (simp add: SocketSignal_recv_def SocketSignal_ctor_def rd_bytes_def read_ret_def
      read_store_def BUFSIZE_def ZMQSignal_recv_def memcpy_def demo_zmq_def
      unsigned_minus_1_eq_mask mask_eq_exp_minus_1)

text \<open>
  C9. The index of the terminator is the value \<open>read\<close> returned, cast to \<open>size_t\<close>. For
  a buffer whose size fits \<open>size_t\<close> it is inside the buffer exactly when that value is
  not negative and less than \<open>BUFSIZE\<close>, and only then does \<open>recv\<close> stay in defined
  behaviour: a read that fills the buffer puts the terminator at index \<open>BUFSIZE\<close>, a
  failed one at \<open>2^64 - 1\<close>. In ZMQSignal the index is the size of the message, and
  \<open>recv\<close> stays in defined behaviour exactly when the message is shorter than \<open>_buf\<close>.
\<close>

theorem terminator_index_bounds:
  assumes "BUFSIZE s < 2 ^ 64"
  shows "((unat (rd_bytes s r) < BUFSIZE s)
           = (0 \<le> read_ret r (BUFSIZE s) \<and> read_ret r (BUFSIZE s) < int (BUFSIZE s)))
    \<and> ((\<exists>s'. snd (SocketSignal_recv s r) = Inr s') = (unat (rd_bytes s r) < BUFSIZE s))
    \<and> (read_ret r (BUFSIZE s) = int (BUFSIZE s) \<longrightarrow>
          snd (SocketSignal_recv s r) = Inl (OutOfBounds (BUFSIZE s) (BUFSIZE s)))
    \<and> (read_ret r (BUFSIZE s) = - 1 \<longrightarrow>
          snd (SocketSignal_recv s r) = Inl (OutOfBounds (2 ^ 64 - 1) (BUFSIZE s)))
    \<and> ((\<exists>z'. snd (ZMQSignal_recv z (ZmqMsg m)) = Inr z') = (length m < length (z_buf z)))
    \<and> (length (z_buf z) \<le> length m \<longrightarrow>
          snd (ZMQSignal_recv z (ZmqMsg m))
            = Inl (OutOfBounds (length (z_buf z)) (length (z_buf z))))"
proof -
  have a: "(unat (rd_bytes s r) < BUFSIZE s)
           = (0 \<le> read_ret r (BUFSIZE s) \<and> read_ret r (BUFSIZE s) < int (BUFSIZE s))"
  proof (cases "0 \<le> read_ret r (BUFSIZE s)")
    case True
    then show ?thesis using rd_bytes_data [OF assms True] by auto
  next
    case False
    then have "read_ret r (BUFSIZE s) = - 1" using read_ret_range [of r "BUFSIZE s"] by simp
    then show ?thesis using rd_bytes_fail [of r s] assms by simp
  qed
  have b: "(\<exists>s'. snd (SocketSignal_recv s r) = Inr s') = (unat (rd_bytes s r) < BUFSIZE s)"
    by (simp add: recv_result)
  have c: "read_ret r (BUFSIZE s) = int (BUFSIZE s) \<longrightarrow>
          snd (SocketSignal_recv s r) = Inl (OutOfBounds (BUFSIZE s) (BUFSIZE s))"
  proof
    assume e: "read_ret r (BUFSIZE s) = int (BUFSIZE s)"
    then have "unat (rd_bytes s r) = BUFSIZE s"
      using rd_bytes_data [OF assms, of r] by simp
    then show "snd (SocketSignal_recv s r) = Inl (OutOfBounds (BUFSIZE s) (BUFSIZE s))"
      by (simp add: recv_result)
  qed
  have d: "read_ret r (BUFSIZE s) = - 1 \<longrightarrow>
          snd (SocketSignal_recv s r) = Inl (OutOfBounds (2 ^ 64 - 1) (BUFSIZE s))"
    using assms by (auto simp: recv_result rd_bytes_fail)
  have e: "(\<exists>z'. snd (ZMQSignal_recv z (ZmqMsg m)) = Inr z') = (length m < length (z_buf z))"
    by (simp add: zmq_recv_result)
  have f: "length (z_buf z) \<le> length m \<longrightarrow>
          snd (ZMQSignal_recv z (ZmqMsg m))
            = Inl (OutOfBounds (length (z_buf z)) (length (z_buf z)))"
    by (simp add: zmq_recv_result)
  from a b c d e f show ?thesis by blast
qed

text \<open>
  An instance, with the default buffer of five bytes: four bytes are received in defined
  behaviour; of six bytes offered five are read, and the index is 5.
\<close>

theorem terminator_index_bounds_witness:
  "(\<exists>s'. snd (SocketSignal_recv (SocketSignal_ctor 5 108 [] 3 False) (RdData ''1234'')) = Inr s')
   \<and> unat (rd_bytes (SocketSignal_ctor 5 108 [] 3 False) (RdData ''123456'')) = 5
   \<and> (\<exists>z'. snd (ZMQSignal_recv demo_zmq (ZmqMsg ''abcd'')) = Inr z')"
  using terminator_index_bounds [where s = "SocketSignal_ctor 5 108 [] 3 False"
      and r = "RdData ''1234''" and z = demo_zmq and m = "''abcd''"]
  by (simp add: SocketSignal_ctor_def BUFSIZE_def rd_bytes_def read_ret_def demo_zmq_def)

section \<open>Descriptors of the stream-socket transport\<close>

text \<open>
  C5. A SocketSignal built with the server-side flag and given an address that fits makes
  exactly the calls \<open>bind\<close>, \<open>listen\<close> with backlog 5 and one \<open>accept\<close>, all on its
  socket; every \<open>write\<close> and \<open>read\<close> of any later sequence of \<open>send\<close> and \<open>recv\<close>
  is on the descriptor \<open>accept\<close> returned. Built without the flag it makes the one call
  \<open>connect\<close>, and every later \<open>write\<close> and \<open>read\<close> is on its own socket.
\<close>

theorem socket_roles_and_descriptors:
  assumes "length (c_str addr) < pathcap"
  shows "\<exists>s'. snd (SocketSignal_set_addr env (SocketSignal_ctor bufsize pathcap d0 sock flag) addr)
          = Inr s'
    \<and> (flag \<longrightarrow>
          syscalls (fst (SocketSignal_set_addr env
              (SocketSignal_ctor bufsize pathcap d0 sock flag) addr))
            = [Bind sock (c_str addr), Listen sock 5, Accept sock]
        \<and> (\<forall>e \<in> set (fst (run cs s')). io_fd e = Some (accept_ret env)))
    \<and> (\<not> flag \<longrightarrow>
          syscalls (fst (SocketSignal_set_addr env
              (SocketSignal_ctor bufsize pathcap d0 sock flag) addr))
            = [Connect sock (c_str addr)]
        \<and> (\<forall>e \<in> set (fst (run cs s')). io_fd e = Some sock))"
proof -
  let ?s = "SocketSignal_ctor bufsize pathcap d0 sock flag"
  have len: "length (c_str addr) < length (sun_path ?s)"
    using assms by (simp add: SocketSignal_ctor_def)
  have flag: "m_server_side ?s = flag" and sock: "m_socket ?s = sock"
    by (simp_all add: SocketSignal_ctor_def)
  show ?thesis
  proof (cases flag)
    case True
    then have srv: "m_server_side ?s" using flag by simp
    show ?thesis
      unfolding set_addr_server [OF len srv]
      using True sock flag
      by (auto simp: syscalls_pre syscalls_checked syscalls_checked_last dest!: run_io_fd)
  next
    case False
    then have cl: "\<not> m_server_side ?s" using flag by simp
    show ?thesis
      unfolding set_addr_client [OF len cl]
      using False sock flag
      by (auto simp: syscalls_pre syscalls_checked syscalls_checked_last dest!: run_io_fd)
  qed
qed

text \<open>
  An instance: the server side accepts descriptor 4, and a send, a receive and a send
  that follow are all on descriptor 4.
\<close>

theorem socket_roles_and_descriptors_witness:
  "syscalls (fst (SocketSignal_set_addr env_ok (SocketSignal_ctor 5 108 [] 3 True) ''/tmp/galois''))
     = [Bind 3 ''/tmp/galois'', Listen 3 5, Accept 3]
   \<and> (\<exists>s'. snd (SocketSignal_set_addr env_ok (SocketSignal_ctor 5 108 [] 3 True) ''/tmp/galois'')
          = Inr s'
        \<and> map io_fd (fst (run [Set ''on'', Send, Recv (RdData ''ab''), Send] s'))
          = [Some 4, Some 4, Some 4])"
  using socket_roles_and_descriptors [where addr = "''/tmp/galois''" and pathcap = 108
      and env = env_ok and bufsize = 5 and ?d0.0 = "[]" and sock = 3 and flag = True
      and cs = "[Set ''on'', Send, Recv (RdData ''ab''), Send]"]
  by (simp add: SocketSignal_ctor_def c_str_def NUL_def env_ok_def SocketSignal_set_addr_def
      strcpy_def checked_def syscalls_def SocketSignal_send_def sys_write_def
      SocketSignal_recv_def rd_bytes_def read_ret_def read_store_def BUFSIZE_def read_call_def
      accept_store_def)

section \<open>The session of the logic-simulation process\<close>

text \<open>
  C6. In a session whose address fits and whose buffer size fits \<open>size_t\<close>, let the reads
  bring the records \<open>pre\<close>, all alive, and then a record whose alive flag is false.
  Then \<open>sc_main\<close> returns 0, and the last event of the process is the read of that
  record: it is read once, no \<open>send\<close> follows it, and what reads might still bring
  (\<open>rs\<close>) is never asked for. Before it there is one read for each record of \<open>pre\<close>
  and one write for each and for the handshake.
\<close>

theorem terminal_record_ends_session:
  assumes "bufsize < 2 ^ 64" and "length (c_str arg) < pathcap"
    and "reads env = pre @ RdData bs # rs"
    and "list_all (alive_record k bufsize) pre"
    and "length bs < bufsize" and "\<not> alive k (c_str bs)"
  shows "\<exists>evs. sc_main k bufsize pathcap env arg d
        = (evs @ [Read (sock_fd env) bufsize], Returned 0)
      \<and> length (filter is_read evs) = length pre
      \<and> length (filter is_write evs) = Suc (length pre)"
proof -
  from sc_main_client [OF assms(2), of k bufsize env d]
  obtain s2 es where m: "sc_main k bufsize pathcap env arg d
        = (Socket # es @ SocketSignal_send s2 @ fst (step_loop k (reads env) s2 d),
           snd (step_loop k (reads env) s2 d))"
    and es: "filter is_write es = []" "filter is_read es = []"
    and s2: "BUFSIZE s2 = bufsize" "\<not> m_server_side s2" "m_socket s2 = sock_fd env"
    by blast
  have rc: "read_call s2 = Read (sock_fd env) bufsize"
    using s2 by (simp add: read_call_def)
  from step_loop_session [of s2 k pre bs rs d] assms s2(1) rc
  obtain evs
    where l: "step_loop k (reads env) s2 d = (evs @ [Read (sock_fd env) bufsize], Returned 0)"
      and nr: "length (filter is_read evs) = length pre"
      and nw: "length (filter is_write evs) = length pre"
    by auto
  let ?evs = "Socket # es @ SocketSignal_send s2 @ evs"
  have "sc_main k bufsize pathcap env arg d = (?evs @ [Read (sock_fd env) bufsize], Returned 0)"
    using m l by simp
  moreover have "length (filter is_read ?evs) = length pre"
    using nr es by (simp add: filter_read_send)
  moreover have "length (filter is_write ?evs) = Suc (length pre)"
    using nw es by (simp add: filter_write_send length_send)
  ultimately show ?thesis by blast
qed

text \<open>
  An instance: one alive record, then the terminal one; the third answer is not read.
\<close>

theorem terminal_record_ends_session_witness:
  "sc_main demo_kit 5 108 demo_env ''/tmp/galois'' 0
     = ([Socket, Connect 3 ''/tmp/galois'', Write 3 ''p'', Read 3 5, Write 3 ''d'', Read 3 5],
        Returned 0)"
  using terminal_record_ends_session [where k = demo_kit and bufsize = 5 and pathcap = 108
      and env = demo_env and arg = "''/tmp/galois''" and pre = "[RdData ''1a'']" and bs = "''0''"
      and rs = "[RdData ''1b'']" and d = 0]
  by (simp add: sc_main_def demo_kit_def demo_env_def env_ok_def SocketSignal_ctor_def
      SocketSignal_set_addr_def strcpy_def c_str_def NUL_def checked_def SocketSignal_send_def
      sys_write_def SocketSignal_recv_def rd_bytes_def read_ret_def read_store_def BUFSIZE_def
      read_call_def alive_record_def Let_def)

text \<open>
  C7. With an address that fits, the trace of \<open>sc_main\<close> is: the call of \<open>socket\<close>;
  the events of \<open>set_addr\<close>, none of them a transfer; the events of one \<open>send\<close> of the
  object \<open>s2\<close>, which is the one \<open>write\<close> of \<open>m_data\<close> with the process id set in
  it by the accessor \<open>set\<close>; and the events of the step loop from \<open>s2\<close>, which start
  with a \<open>read\<close>. The handshake is sent by the \<open>send\<close> that the loop uses, from the
  same \<open>m_data\<close>.
\<close>

theorem handshake_once_before_loop:
  assumes "length (c_str arg) < pathcap"
  shows "\<exists>s2 es tl. fst (sc_main k bufsize pathcap env arg d)
        = Socket # es @ SocketSignal_send s2 @ fst (step_loop k (reads env) s2 d)
      \<and> filter is_write es = [] \<and> filter is_read es = []
      \<and> m_data s2 = set_pid k (init_data k) (pid env)
      \<and> SocketSignal_send s2 = [Write (sock_fd env) (set_pid k (init_data k) (pid env))]
      \<and> fst (step_loop k (reads env) s2 d) = Read (sock_fd env) bufsize # tl"
proof -
  from sc_main_client [OF assms, of k bufsize env d]
  obtain s2 es where m: "sc_main k bufsize pathcap env arg d
        = (Socket # es @ SocketSignal_send s2 @ fst (step_loop k (reads env) s2 d),
           snd (step_loop k (reads env) s2 d))"
    and es: "filter is_write es = []" "filter is_read es = []"
    and s2: "m_data s2 = set_pid k (init_data k) (pid env)"
      "BUFSIZE s2 = bufsize" "\<not> m_server_side s2" "m_socket s2 = sock_fd env"
    by blast
  have snd: "SocketSignal_send s2 = [Write (sock_fd env) (set_pid k (init_data k) (pid env))]"
    using s2 by (simp add: SocketSignal_send_def sys_write_def)
  have rc: "read_call s2 = Read (sock_fd env) bufsize"
    using s2 by (simp add: read_call_def)
  obtain tl where "fst (step_loop k (reads env) s2 d) = Read (sock_fd env) bufsize # tl"
    using step_loop_starts_with_read [of k "reads env" s2 d] rc by auto
  with m es s2 snd show ?thesis by (metis fst_conv)
qed

text \<open>An instance: the handshake is the one write before the first read.\<close>

theorem handshake_once_before_loop_witness:
  "fst (sc_main demo_kit 5 108 demo_env ''/tmp/galois'' 0)
     = [Socket, Connect 3 ''/tmp/galois'', Write 3 ''p'', Read 3 5, Write 3 ''d'', Read 3 5]"
  using handshake_once_before_loop [where k = demo_kit and bufsize = 5 and pathcap = 108
      and env = demo_env and arg = "''/tmp/galois''" and d = 0]
  by (simp add: sc_main_def demo_kit_def demo_env_def env_ok_def SocketSignal_ctor_def
      SocketSignal_set_addr_def strcpy_def c_str_def NUL_def checked_def SocketSignal_send_def
      sys_write_def SocketSignal_recv_def rd_bytes_def read_ret_def read_store_def BUFSIZE_def
      read_call_def Let_def)

section \<open>What a send transmits\<close>

text \<open>
  C8. A \<open>send\<close> of either transport hands over the bytes of \<open>m_data\<close>, all of them and
  nothing else: SocketSignal in one \<open>write\<close> on the descriptor of its role, ZMQSignal in
  one message. So the number of bytes is the size of the string, and no length or frame
  is put before them.
\<close>

theorem send_exact_bytes:
  "SocketSignal_send s = [Write (if m_server_side s then m_rd_socket s else m_socket s) (m_data s)]
   \<and> fst (ZMQSignal_send z ok) = [ZmqSend (m_data z)]"
  by (simp add: SocketSignal_send_def sys_write_def ZMQSignal_send_def memcpy_def)

text \<open>An instance, for a record of two bytes.\<close>

theorem send_exact_bytes_witness:
  "SocketSignal_send (SocketSignal_ctor 5 108 ''on'' 3 False) = [Write 3 ''on'']
   \<and> fst (ZMQSignal_send demo_zmq True) = [ZmqSend ''on'']"
  using send_exact_bytes [where s = "SocketSignal_ctor 5 108 ''on'' 3 False" and z = demo_zmq
      and ok = True]
  by (simp add: SocketSignal_ctor_def demo_zmq_def)

section \<open>The address copy of SocketSignal::set\_addr\<close>

text \<open>
  C10. \<open>set_addr\<close> copies the address into \<open>sun_path\<close> with \<open>strcpy\<close> and no check:
  the call stays inside the array, and goes on to its system calls, exactly when the
  address as a C string is strictly shorter than \<open>sun_path\<close>. For any longer address
  nothing is cut off: the copy stores past the end of the array (the terminator would go to
  index \<open>strlen\<close>), and no system call is reached in defined behaviour. An address
  without a NUL byte is its own C string.
\<close>

theorem set_addr_strcpy_unguarded:
  "((\<exists>s'. snd (SocketSignal_set_addr env s addr) = Inr s')
      = (length (c_str addr) < length (sun_path s)))
   \<and> ((snd (SocketSignal_set_addr env s addr)
         = Inl (OutOfBounds (length (c_str addr)) (length (sun_path s))))
      = (length (sun_path s) \<le> length (c_str addr)))
   \<and> (length (sun_path s) \<le> length (c_str addr) \<longrightarrow>
        syscalls (fst (SocketSignal_set_addr env s addr)) = [])
   \<and> (NUL \<notin> set addr \<longrightarrow> c_str addr = addr)"
proof (cases "length (c_str addr) < length (sun_path s)")
  case True
  then show ?thesis
    by (cases "m_server_side s") (simp_all add: set_addr_server set_addr_client c_str_id)
next
  case False
  then have "length (sun_path s) \<le> length (c_str addr)" by simp
  then show ?thesis
    by (simp add: set_addr_overflow c_str_id syscalls_def)
qed

text \<open>
  An instance: an address of eleven bytes fits the 108 bytes of \<open>sun_path\<close> on Linux, and
  overruns an array of eight.
\<close>

theorem set_addr_strcpy_unguarded_witness:
  "(\<exists>s'. snd (SocketSignal_set_addr env_ok (SocketSignal_ctor 5 108 [] 3 False) ''/tmp/galois'')
           = Inr s')
   \<and> snd (SocketSignal_set_addr env_ok (SocketSignal_ctor 5 8 [] 3 False) ''/tmp/galois'')
       = Inl (OutOfBounds 11 8)
   \<and> syscalls (fst (SocketSignal_set_addr env_ok (SocketSignal_ctor 5 8 [] 3 False)
         ''/tmp/galois'')) = []
   \<and> c_str ''/tmp/galois'' = ''/tmp/galois''"
  using set_addr_strcpy_unguarded [where addr = "''/tmp/galois''" and env = env_ok
      and s = "SocketSignal_ctor 5 108 [] 3 False"]
    set_addr_strcpy_unguarded [where addr = "''/tmp/galois''" and env = env_ok
      and s = "SocketSignal_ctor 5 8 [] 3 False"]
  by (simp add: SocketSignal_ctor_def c_str_def NUL_def)

end
